theory Spec2Isabelle
  imports Main "HOL-Library.Sublist"
begin

section \<open>The chat application of \<open>src/app/main.py\<close>\<close>

text \<open>
  The Streamlit script keeps its data in \<open>st.session_state\<close> and talks to three
  collaborators of \<open>utils.bedrock\<close> (\<open>BedrockHandler\<close>, \<open>KBHandler\<close>,
  \<open>S3Handler\<close>) whose code is not part of the sources at hand. The session state is a
  record that every function takes and returns; the collaborators are a record of
  functions that the handlers take as a parameter; what the remote services answer while
  a video job is polled is a list of replies, one per iteration of the loop. Message
  dictionaries are shared between lists in Python, so they live in an explicit heap and
  the lists hold references. Every call that leaves the process and every status line
  shown to the user is appended to a trace; pure rendering (\<open>st.write\<close>,
  \<open>st.markdown\<close>, expanders) changes no state and is left out.
\<close>

subsection \<open>Strings\<close>

text \<open>Python's \<open>key in model_id\<close> on strings: \<open>key\<close> occurs as a contiguous piece.\<close>

fun starts_with :: "string \<Rightarrow> string \<Rightarrow> bool" where
  "starts_with [] s = True"
| "starts_with (k # ks) [] = False"
| "starts_with (k # ks) (c # cs) = (k = c \<and> starts_with ks cs)"

fun str_in :: "string \<Rightarrow> string \<Rightarrow> bool" where
  "str_in key [] = (key = [])"
| "str_in key (c # cs) = (starts_with key (c # cs) \<or> str_in key cs)"

text \<open>\<open>str(x)\<close> inside an f-string for a value that may be \<open>None\<close>.\<close>

fun py_str :: "string option \<Rightarrow> string" where
  "py_str None = ''None''"
| "py_str (Some t) = t"

text \<open>Truthiness of an optional string: \<open>None\<close> and \<open>""\<close> are false.\<close>

fun truthy :: "string option \<Rightarrow> bool" where
  "truthy None = False"
| "truthy (Some t) = (t \<noteq> [])"

definition newline :: string where
  "newline = [CHR 0x0A]"

text \<open>The three symbols of the status lines, as their UTF-8 bytes.\<close>

definition check_mark :: string where
  "check_mark = [CHR 0xE2, CHR 0x9C, CHR 0x85]"

definition cross_mark :: string where
  "cross_mark = [CHR 0xE2, CHR 0x9D, CHR 0x8C]"

definition hourglass :: string where
  "hourglass = [CHR 0xE2, CHR 0x8F, CHR 0xB3]"

subsection \<open>Data\<close>

datatype py_error = IndexError | KeyError | TypeError | AttributeError

text \<open>
  A content block of a wire message: a dictionary with a \<open>"text"\<close> key, or one without
  it (an image or a document block, named by its kind).
\<close>

datatype block = TextBlock string | OtherBlock string

record wire_message =
  role :: string
  content :: "block list"
  s3_uri :: "string option"

text \<open>
  What \<open>update_chat_history\<close> is given: a plain string, or a dictionary with a
  \<open>"text"\<close> and perhaps an \<open>"image"\<close> (base64 text).
\<close>

datatype response = Str string | Dict string "string option"

record turn =
  turn_role :: string
  turn_content :: response

record doc_info =
  extension :: string
  doc_size :: nat
  processed :: bool

record uploaded_file =
  file_name :: string
  file_value :: string

text \<open>
  \<open>job_details\<close> as the handler reads it: \<open>["invocation_arn"]\<close>,
  \<open>["s3_details"]["bucket"]\<close> and \<open>["s3_details"]["prefix"]\<close>.
\<close>

record job_details =
  invocation_arn :: string
  s3_bucket :: string
  s3_prefix :: string

datatype event =
    StError string
  | StatusInfo string
  | StatusSuccess string
  | StatusError string
  | Sleep nat
  | GetRelevantDocs string
  | GenerateVideo string "string option" "(string \<times> string) option"
  | GetAsyncInvoke string
  | CheckVideoExists string string
  | InvokeModel "wire_message list"
  | InvokeModelWithStream "wire_message list"

type_synonym ref = nat

text \<open>
  \<open>video_job\<close> is \<open>None\<close> while the key is not in the session state, \<open>Some None\<close>
  when it holds Python's \<open>None\<close>, and \<open>Some (Some j)\<close> while a job is active.
  \<open>bedrock_messages\<close> holds references into \<open>heap\<close>.
\<close>

record app_state =
  messages :: "turn list"
  bedrock_messages :: "ref list"
  uploaded_document_content :: "(string \<times> doc_info) list"
  uploaded_files :: "uploaded_file list"
  video_job :: "job_details option option"
  heap :: "wire_message list"
  trace :: "event list"

text \<open>The keys of \<open>config.json\<close> that the functions below read.\<close>

record 'p configs =
  start_message :: string
  nova_canvas_params :: 'p
  nova_reel_params :: 'p
  claude_model_params :: 'p
  nova_model_params :: 'p

datatype stream_event = ContentBlockDelta string | OtherEvent

text \<open>
  The collaborators of \<open>utils.bedrock\<close>, taken as parameters: the attributes and
  methods of \<open>BedrockHandler\<close> and \<open>KBHandler\<close> that \<open>main.py\<close> uses, each as the
  value it returns. \<open>invoke_model_text\<close> is the text at
  \<open>["output"]["message"]["content"][0]["text"]\<close> of the response, \<open>invoke_model_image\<close>
  the bytes of the image, \<open>invoke_model_with_stream\<close> the \<open>"stream"\<close> entry of the
  response, \<open>image_format\<close> is \<open>Path(name).suffix[1:]\<close>.
\<close>

record 'd collaborators =
  handler_model_id :: string
  system_message :: "wire_message option"
  user_message :: "string \<Rightarrow> string option \<Rightarrow> uploaded_file list \<Rightarrow> wire_message"
  assistant_message :: "string \<Rightarrow> wire_message"
  get_relevant_docs :: "string \<Rightarrow> 'd list"
  parse_kb_output_to_string :: "'d list \<Rightarrow> string"
  invoke_model_image :: "wire_message list \<Rightarrow> string"
  invoke_model_text :: "wire_message list \<Rightarrow> string"
  invoke_model_with_stream :: "wire_message list \<Rightarrow> stream_event list option"
  generate_video :: "string \<Rightarrow> string option \<Rightarrow> (string \<times> string) option \<Rightarrow> job_details"
  b64encode :: "string \<Rightarrow> string"
  image_format :: "string \<Rightarrow> string"

text \<open>
  What the services answer in one iteration of the polling loop:
  \<open>client.get_async_invoke\<close> returns a response (its \<open>"status"\<close> and
  \<open>"failureMessage"\<close> entries, each perhaps missing) or raises; and
  \<open>S3Handler().check_video_exists\<close> returns \<open>(video_exists, video_path)\<close>, read only
  when the status is \<open>"Completed"\<close>.
\<close>

datatype status_reply = Response "string option" "string option" | Raises string

record poll_reply =
  status_reply :: status_reply
  storage_reply :: "bool \<times> string option"

record video_status =
  status :: string
  completed :: bool
  failed :: bool
  error :: "string option"

datatype loop_ctl = Break | Continue | Abort py_error

datatype outcome = Returned | Polling | Raised py_error

subsection \<open>Session reset\<close>

definition clear_screen :: "'p configs \<Rightarrow> app_state \<Rightarrow> app_state" where
  "clear_screen cfg s =
     (let s1 = s\<lparr>messages := [\<lparr>turn_role = ''assistant'', turn_content = Str (start_message cfg)\<rparr>]\<rparr>;
          s2 = s1\<lparr>bedrock_messages := []\<rparr>;
          s3 = s2\<lparr>uploaded_document_content := []\<rparr>
      in if video_job s3 \<noteq> None then s3\<lparr>video_job := Some None\<rparr> else s3)"

subsection \<open>Parameter selection and dispatch\<close>

text \<open>The dictionary \<open>model_params\<close> of \<open>main\<close>, in its insertion order.\<close>

definition model_params :: "'p configs \<Rightarrow> (string \<times> 'p) list" where
  "model_params cfg =
     [(''nova-canvas'', nova_canvas_params cfg),
      (''nova-reel'', nova_reel_params cfg),
      (''anthropic'', claude_model_params cfg),
      (''nova'', nova_model_params cfg)]"

text \<open>\<open>next((params for key, params in items if key in model_id), default)\<close>.\<close>

fun next_match :: "(string \<times> 'p) list \<Rightarrow> string \<Rightarrow> 'p \<Rightarrow> 'p" where
  "next_match [] model_id dflt = dflt"
| "next_match ((key, params) # rest) model_id dflt =
     (if str_in key model_id then params else next_match rest model_id dflt)"

definition select_params :: "'p configs \<Rightarrow> string \<Rightarrow> 'p" where
  "select_params cfg model_id = next_match (model_params cfg) model_id (nova_model_params cfg)"

datatype protocol = ImageProtocol | VideoProtocol | TextProtocol

text \<open>The \<open>if\<close>/\<open>elif\<close>/\<open>else\<close> of \<open>main\<close> that picks the handler.\<close>

definition protocol_of :: "string \<Rightarrow> protocol" where
  "protocol_of model_id =
     (if str_in ''nova-canvas'' model_id then ImageProtocol
      else if str_in ''nova-reel'' model_id then VideoProtocol
      else TextProtocol)"

subsection \<open>History\<close>

definition emit :: "event \<Rightarrow> app_state \<Rightarrow> app_state" where
  "emit e s = s\<lparr>trace := trace s @ [e]\<rparr>"

text \<open>A new message object: it gets the next free address, and the list gets the reference.\<close>

definition append_bedrock_message :: "wire_message \<Rightarrow> app_state \<Rightarrow> app_state" where
  "append_bedrock_message m s =
     s\<lparr>heap := heap s @ [m], bedrock_messages := bedrock_messages s @ [length (heap s)]\<rparr>"

fun response_text :: "response \<Rightarrow> string" where
  "response_text (Str t) = t"
| "response_text (Dict t img) = t"

definition update_chat_history :: "'d collaborators \<Rightarrow> response \<Rightarrow> app_state \<Rightarrow> app_state" where
  "update_chat_history c resp s =
     (let s1 = s\<lparr>messages := messages s @ [\<lparr>turn_role = ''assistant'', turn_content = resp\<rparr>]\<rparr>
      in append_bedrock_message (assistant_message c (response_text resp)) s1)"

subsection \<open>Video generation\<close>

fun get_video_status :: "status_reply \<Rightarrow> video_status" where
  "get_video_status (Response st fm) =
     \<lparr>status = (case st of None \<Rightarrow> ''Unknown'' | Some x \<Rightarrow> x),
      completed = (st = Some ''Completed''),
      failed = (st = Some ''Failed''),
      error = fm\<rparr>"
| "get_video_status (Raises e) =
     \<lparr>status = ''Error'', completed = False, failed = True, error = Some e\<rparr>"

definition success_message :: "string \<Rightarrow> string option \<Rightarrow> string" where
  "success_message bucket video_path =
     check_mark @ '' Video generation completed! Video available at: s3://'' @ bucket @ ''/''
       @ py_str video_path"

definition failure_message :: "string option \<Rightarrow> string" where
  "failure_message err = cross_mark @ '' Video generation failed: '' @ py_str err"

definition waiting_message :: string where
  "waiting_message = ''Video processing... Waiting for S3 upload to complete...''"

definition generating_message :: "string \<Rightarrow> string" where
  "generating_message st =
     hourglass @ '' Generating Video... This can take up to 5 minutes. Status: '' @ st"

definition starting_message :: string where
  "starting_message = ''Starting video generation. This may take a few minutes...''"

text \<open>One pass through the body of \<open>while True\<close>.\<close>

definition poll_iteration :: "'d collaborators \<Rightarrow> poll_reply \<Rightarrow> app_state \<Rightarrow> app_state \<times> loop_ctl" where
  "poll_iteration c p s =
     (case video_job s of
        None \<Rightarrow> (s, Abort AttributeError)
      | Some None \<Rightarrow> (s, Abort TypeError)
      | Some (Some job) \<Rightarrow>
          (let s1 = emit (GetAsyncInvoke (invocation_arn job)) s;
               st = get_video_status (status_reply p)
           in if completed st then
                (let s2 = emit (CheckVideoExists (s3_bucket job) (s3_prefix job)) s1;
                     video_exists = fst (storage_reply p);
                     video_path = snd (storage_reply p)
                 in if video_exists then
                      (let message = success_message (s3_bucket job) video_path;
                           s3 = emit (StatusSuccess message) s2;
                           s4 = update_chat_history c (Dict message None) s3
                       in (s4\<lparr>video_job := Some None\<rparr>, Break))
                    else (emit (Sleep 10) (emit (StatusInfo waiting_message) s2), Continue))
              else if failed st then
                (let message = failure_message (error st);
                     s2 = emit (StatusError message) s1;
                     s3 = update_chat_history c (Dict message None) s2
                 in (s3\<lparr>video_job := Some None\<rparr>, Break))
              else (emit (Sleep 10) (emit (StatusInfo (generating_message (status st))) s1),
                    Continue)))"

text \<open>
  The loop, run against the replies the services give: it ends when an iteration breaks,
  and is still polling when the replies seen so far are used up.
\<close>

fun poll_loop :: "'d collaborators \<Rightarrow> poll_reply list \<Rightarrow> app_state \<Rightarrow> app_state \<times> outcome" where
  "poll_loop c [] s = (s, Polling)"
| "poll_loop c (p # ps) s =
     (case poll_iteration c p s of
        (s', Break) \<Rightarrow> (s', Returned)
      | (s', Continue) \<Rightarrow> poll_loop c ps s'
      | (s', Abort e) \<Rightarrow> (s', Raised e))"

definition handle_video_generation ::
  "'d collaborators \<Rightarrow> string \<Rightarrow> string option \<Rightarrow> uploaded_file option \<Rightarrow> poll_reply list
     \<Rightarrow> app_state \<Rightarrow> app_state \<times> outcome" where
  "handle_video_generation c prompt uri upload polls s =
     (let s1 = (if video_job s = None then s\<lparr>video_job := Some None\<rparr> else s);
          s2 = (if video_job s1 = Some None then
                  (let s' = emit (StatusInfo starting_message) s1;
                       image_data = (case upload of
                                       None \<Rightarrow> None
                                     | Some f \<Rightarrow> Some (file_value f, image_format c (file_name f)));
                       job = generate_video c prompt uri image_data
                   in (emit (GenerateVideo prompt uri image_data) s')\<lparr>video_job := Some (Some job)\<rparr>)
                else s1)
      in poll_loop c polls s2)"

subsection \<open>Image generation\<close>

definition image_caption :: string where
  "image_caption = ''I've generated the image based on your prompt.''"

definition handle_image_generation :: "'d collaborators \<Rightarrow> app_state \<Rightarrow> app_state \<times> outcome" where
  "handle_image_generation c s =
     (let request = map (\<lambda>r. heap s ! r) (bedrock_messages s);
          image_data = invoke_model_image c request;
          s1 = emit (InvokeModel request) s
      in (update_chat_history c (Dict image_caption (Some (b64encode c image_data))) s1, Returned))"

subsection \<open>Text generation\<close>

text \<open>\<open>content[0]["text"]\<close>: no first block is an IndexError, a block without the key a KeyError.\<close>

fun first_text :: "block list \<Rightarrow> py_error + string" where
  "first_text [] = Inl IndexError"
| "first_text (TextBlock t # bs) = Inr t"
| "first_text (OtherBlock k # bs) = Inl KeyError"

text \<open>
  Lines 361 to 364. \<open>full_messages\<close> is \<open>messages.copy()\<close>: a new list of the same
  references, so the assignment writes the object that the stored list refers to.
\<close>

definition prepend_system :: "wire_message option \<Rightarrow> ref list \<Rightarrow> app_state \<Rightarrow> py_error + app_state" where
  "prepend_system system_msg full_messages s =
     (case system_msg of
        None \<Rightarrow> Inr s
      | Some sm \<Rightarrow>
          (case full_messages of
             [] \<Rightarrow> Inr s
           | r # rest \<Rightarrow>
               if role (heap s ! r) = ''user'' then
                 (case first_text (content sm) of
                    Inl e \<Rightarrow> Inl e
                  | Inr sys_content \<Rightarrow>
                      (case first_text (content (heap s ! r)) of
                         Inl e \<Rightarrow> Inl e
                       | Inr user_content \<Rightarrow>
                           Inr (s\<lparr>heap := (heap s)[r := (heap s ! r)\<lparr>content :=
                                  (content (heap s ! r))[0 :=
                                     TextBlock (sys_content @ newline @ newline @ user_content)]\<rparr>]\<rparr>)))
               else Inr s))"

fun delta_text :: "stream_event \<Rightarrow> string" where
  "delta_text (ContentBlockDelta t) = t"
| "delta_text OtherEvent = []"

text \<open>
  The handler. Its arguments \<open>docs\<close> and \<open>retriever\<close> are only rendered, so the
  function below does not take them.
\<close>

definition handle_text_generation :: "'d collaborators \<Rightarrow> bool \<Rightarrow> app_state \<Rightarrow> app_state \<times> outcome" where
  "handle_text_generation c streaming s =
     (let full_messages = bedrock_messages s;
          system_msg = system_message c
      in case prepend_system system_msg full_messages s of
           Inl e \<Rightarrow> (s, Raised e)
         | Inr s1 \<Rightarrow>
             (let request = map (\<lambda>r. heap s1 ! r) full_messages
              in if streaming then
                   (let s2 = emit (InvokeModelWithStream request) s1;
                        streamed_response =
                          (case invoke_model_with_stream c request of
                             None \<Rightarrow> []
                           | Some evs \<Rightarrow> concat (map delta_text evs))
                    in (update_chat_history c (Dict streamed_response None) s2, Returned))
                 else
                   (let converse_messages =
                          (if str_in ''anthropic'' (handler_model_id c)
                           then (case system_msg of None \<Rightarrow> [] | Some sm \<Rightarrow> [sm]) @ request
                           else request);
                        s2 = emit (InvokeModel converse_messages) s1
                    in (update_chat_history c (Str (invoke_model_text c converse_messages)) s2,
                        Returned))))"

subsection \<open>One user turn\<close>

definition config_error_message :: string where
  "config_error_message = ''Please provide an S3 output location for video generation''"

text \<open>Lines 233 to 237: the documents of the turn, and the state after the query if one is made.\<close>

definition retrieve_docs :: "'d collaborators \<Rightarrow> string \<Rightarrow> string \<Rightarrow> app_state \<Rightarrow> 'd list \<times> app_state" where
  "retrieve_docs c model_id prompt s =
     (if \<not> (str_in ''nova-canvas'' model_id \<or> str_in ''nova-reel'' model_id)
      then (get_relevant_docs c prompt, emit (GetRelevantDocs prompt) s)
      else ([], s))"

text \<open>The body of \<open>if prompt := st.chat_input()\<close> in \<open>main\<close>.\<close>

definition main_turn ::
  "'d collaborators \<Rightarrow> string \<Rightarrow> string option \<Rightarrow> bool \<Rightarrow> poll_reply list \<Rightarrow> string
     \<Rightarrow> app_state \<Rightarrow> app_state \<times> outcome" where
  "main_turn c model_id uri streaming_on polls prompt s =
     (let s1 = s\<lparr>messages := messages s @ [\<lparr>turn_role = ''user'', turn_content = Str prompt\<rparr>]\<rparr>
      in if str_in ''nova-reel'' model_id \<and> \<not> truthy uri
         then (emit (StError config_error_message) s1, Returned)
         else
           (let (docs, s2) = retrieve_docs c model_id prompt s1;
                context = (if docs \<noteq> [] then Some (parse_kb_output_to_string c docs) else None);
                user_msg = user_message c prompt context (uploaded_files s2);
                user_msg' = (if str_in ''nova-reel'' model_id
                             then user_msg\<lparr>s3_uri := uri\<rparr> else user_msg);
                s3 = append_bedrock_message user_msg' s2
            in if str_in ''nova-canvas'' model_id then handle_image_generation c s3
               else if str_in ''nova-reel'' model_id then
                 handle_video_generation c prompt uri
                   (case uploaded_files s3 of [] \<Rightarrow> None | f # fs \<Rightarrow> Some f) polls s3
               else handle_text_generation c streaming_on s3))"

subsection \<open>Vocabulary of the properties\<close>

text \<open>Calls that leave the process, among the events of the trace.\<close>

fun is_backend_call :: "event \<Rightarrow> bool" where
  "is_backend_call (GetRelevantDocs q) = True"
| "is_backend_call (GenerateVideo p u i) = True"
| "is_backend_call (GetAsyncInvoke a) = True"
| "is_backend_call (CheckVideoExists b k) = True"
| "is_backend_call (InvokeModel ms) = True"
| "is_backend_call (InvokeModelWithStream ms) = True"
| "is_backend_call e = False"

fun is_submission :: "event \<Rightarrow> bool" where
  "is_submission (GenerateVideo p u i) = True"
| "is_submission e = False"

fun is_retrieval :: "event \<Rightarrow> bool" where
  "is_retrieval (GetRelevantDocs q) = True"
| "is_retrieval e = False"

fun is_user_error :: "event \<Rightarrow> bool" where
  "is_user_error (StError m) = True"
| "is_user_error e = False"

fun is_terminal_status :: "event \<Rightarrow> bool" where
  "is_terminal_status (StatusSuccess m) = True"
| "is_terminal_status (StatusError m) = True"
| "is_terminal_status e = False"

fun is_success_status :: "event \<Rightarrow> bool" where
  "is_success_status (StatusSuccess m) = True"
| "is_success_status e = False"

text \<open>The history entry of a terminal report of the video handler.\<close>

definition report_turn :: "string \<Rightarrow> turn" where
  "report_turn m = \<lparr>turn_role = ''assistant'', turn_content = Dict m None\<rparr>"

text \<open>A step that reports completion: job cleared, one history entry and one success status more.\<close>

definition completed_step :: "app_state \<Rightarrow> app_state \<Rightarrow> bool" where
  "completed_step s s' \<longleftrightarrow>
     video_job s' = Some None
     \<and> length (messages s') = Suc (length (messages s))
     \<and> length (filter is_success_status (trace s')) = Suc (length (filter is_success_status (trace s)))"

text \<open>The backend reports the terminal status \<open>"Completed"\<close>.\<close>

fun backend_success :: "status_reply \<Rightarrow> bool" where
  "backend_success (Response st fm) = (st = Some ''Completed'')"
| "backend_success (Raises e) = False"


text \<open>The text of the first block of the first stored wire message.\<close>

definition first_stored_text :: "app_state \<Rightarrow> py_error + string" where
  "first_stored_text s =
     (case bedrock_messages s of
        [] \<Rightarrow> Inl IndexError
      | r # rest \<Rightarrow> first_text (content (heap s ! r)))"

text \<open>The texts of all text blocks of a request, in order.\<close>

fun block_texts :: "block list \<Rightarrow> string list" where
  "block_texts [] = []"
| "block_texts (TextBlock t # bs) = t # block_texts bs"
| "block_texts (OtherBlock k # bs) = block_texts bs"

definition request_texts :: "wire_message list \<Rightarrow> string list" where
  "request_texts ms = concat (map (\<lambda>m. block_texts (content m)) ms)"

subsection \<open>Concrete collaborators and states for evaluation\<close>

definition demo_collaborators :: "string collaborators" where
  "demo_collaborators =
     \<lparr>handler_model_id = ''anthropic.claude-x'',
      system_message = Some \<lparr>role = ''system'', content = [TextBlock ''Be brief.''], s3_uri = None\<rparr>,
      user_message = (\<lambda>prompt context files.
         \<lparr>role = ''user'',
          content = [TextBlock (case context of None \<Rightarrow> prompt | Some x \<Rightarrow> x @ prompt)],
          s3_uri = None\<rparr>),
      assistant_message = (\<lambda>t. \<lparr>role = ''assistant'', content = [TextBlock t], s3_uri = None\<rparr>),
      get_relevant_docs = (\<lambda>prompt. [''doc'']),
      parse_kb_output_to_string = concat,
      invoke_model_image = (\<lambda>ms. ''png-bytes''),
      invoke_model_text = (\<lambda>ms. ''fine''),
      invoke_model_with_stream =
        (\<lambda>ms. Some [ContentBlockDelta ''fi'', OtherEvent, ContentBlockDelta ''ne'']),
      generate_video = (\<lambda>prompt uri image.
         \<lparr>invocation_arn = ''arn:job-2'', s3_bucket = ''bucket'', s3_prefix = ''job-2''\<rparr>),
      b64encode = (\<lambda>bytes. bytes),
      image_format = (\<lambda>name. ''png'')\<rparr>"

definition demo_configs :: "nat configs" where
  "demo_configs =
     \<lparr>start_message = ''How can I help?'',
      nova_canvas_params = 1, nova_reel_params = 2,
      claude_model_params = 3, nova_model_params = 4\<rparr>"

definition idle_state :: app_state where
  "idle_state =
     \<lparr>messages = [\<lparr>turn_role = ''assistant'', turn_content = Str ''How can I help?''\<rparr>],
      bedrock_messages = [],
      uploaded_document_content = [],
      uploaded_files = [],
      video_job = None,
      heap = [],
      trace = []\<rparr>"

definition demo_job :: job_details where
  "demo_job = \<lparr>invocation_arn = ''arn:job-1'', s3_bucket = ''bucket'', s3_prefix = ''job-1''\<rparr>"

definition polling_state :: app_state where
  "polling_state = idle_state\<lparr>video_job := Some (Some demo_job)\<rparr>"

text \<open>A session whose history holds one user message, \<open>hi\<close>.\<close>

definition one_message_state :: app_state where
  "one_message_state =
     idle_state\<lparr>bedrock_messages := [0],
                heap := [\<lparr>role = ''user'', content = [TextBlock ''hi''], s3_uri = None\<rparr>]\<rparr>"

text \<open>
  A session with one uploaded file, its entry in the document table and one exchange in
  the history.
\<close>

definition uploaded_state :: app_state where
  "uploaded_state =
     one_message_state
       \<lparr>uploaded_document_content :=
          [(''notes.pdf'', \<lparr>extension = ''pdf'', doc_size = 4, processed = True\<rparr>)],
        uploaded_files := [\<lparr>file_name = ''notes.pdf'', file_value = ''%PDF''\<rparr>]\<rparr>"

text \<open>Collaborators whose user message carries one block for each uploaded file.\<close>

definition attaching_collaborators :: "string collaborators" where
  "attaching_collaborators =
     demo_collaborators
       \<lparr>handler_model_id := ''amazon.nova-lite-v1:0'',
        system_message := None,
        get_relevant_docs := (\<lambda>prompt. []),
        user_message := (\<lambda>prompt context files.
          \<lparr>role = ''user'',
           content = TextBlock prompt # map (\<lambda>f. OtherBlock (file_name f)) files,
           s3_uri = None\<rparr>)\<rparr>"

definition reply_transport_error :: poll_reply where
  "reply_transport_error = \<lparr>status_reply = Raises ''timed out'', storage_reply = (False, None)\<rparr>"

definition reply_in_progress :: poll_reply where
  "reply_in_progress =
     \<lparr>status_reply = Response (Some ''InProgress'') None, storage_reply = (False, None)\<rparr>"

definition reply_completed_no_artifact :: poll_reply where
  "reply_completed_no_artifact =
     \<lparr>status_reply = Response (Some ''Completed'') None, storage_reply = (False, None)\<rparr>"

definition reply_completed_artifact :: poll_reply where
  "reply_completed_artifact =
     \<lparr>status_reply = Response (Some ''Completed'') None,
      storage_reply = (True, Some ''job-1/output.mp4'')\<rparr>"


section \<open>Properties\<close>

subsection \<open>Substrings\<close>

lemma starts_with_iff_prefix: "starts_with key s \<longleftrightarrow> prefix key s"
  by (induction key s rule: starts_with.induct) auto

lemma str_in_iff_sublist: "str_in key s \<longleftrightarrow> sublist key s"
proof (induction s)
  case Nil
  then show ?case by simp
next
  case (Cons c cs)
  then show ?case
    by (simp add: starts_with_iff_prefix sublist_Cons_right del: starts_with.simps)
qed

lemma next_match_find:
  "next_match tbl model_id dflt =
     (case find (\<lambda>(key, params). sublist key model_id) tbl of
        None \<Rightarrow> dflt
      | Some (key, params) \<Rightarrow> params)"
  by (induction tbl model_id dflt rule: next_match.induct) (simp_all add: str_in_iff_sublist)

subsection \<open>Parameter selection\<close>

text \<open>
  C5. The keys of the table are the four families in the order image, video, vendor text,
  generic text; the parameters selected for a model identifier are those of the first key
  that occurs in the identifier as a contiguous piece (\<open>sublist\<close>), and the generic text
  parameters when no key occurs. The selection is a function of the configuration and the
  identifier alone, so two calls on the same identifier give the same result. The handler
  is chosen by the same test; the identifier \<open>anthropic.claude-x\<close> gets the text
  handler and the vendor's text parameters.
\<close>

theorem select_params_first_match:
  "map fst (model_params cfg) = [''nova-canvas'', ''nova-reel'', ''anthropic'', ''nova'']
   \<and> select_params cfg model_id =
       (case find (\<lambda>(key, params). sublist key model_id) (model_params cfg) of
          None \<Rightarrow> nova_model_params cfg
        | Some (key, params) \<Rightarrow> params)
   \<and> select_params cfg model_id =
       (if sublist ''nova-canvas'' model_id then nova_canvas_params cfg
        else if sublist ''nova-reel'' model_id then nova_reel_params cfg
        else if sublist ''anthropic'' model_id then claude_model_params cfg
        else nova_model_params cfg)
   \<and> protocol_of model_id =
       (if sublist ''nova-canvas'' model_id then ImageProtocol
        else if sublist ''nova-reel'' model_id then VideoProtocol
        else TextProtocol)
   \<and> protocol_of ''anthropic.claude-x'' = TextProtocol
   \<and> select_params cfg ''anthropic.claude-x'' = claude_model_params cfg"
proof -
  have a: "map fst (model_params cfg) = [''nova-canvas'', ''nova-reel'', ''anthropic'', ''nova'']"
    by (simp add: model_params_def)
  have b: "select_params cfg model_id =
       (case find (\<lambda>(key, params). sublist key model_id) (model_params cfg) of
          None \<Rightarrow> nova_model_params cfg
        | Some (key, params) \<Rightarrow> params)"
    unfolding select_params_def by (rule next_match_find)
  have c: "select_params cfg model_id =
       (if sublist ''nova-canvas'' model_id then nova_canvas_params cfg
        else if sublist ''nova-reel'' model_id then nova_reel_params cfg
        else if sublist ''anthropic'' model_id then claude_model_params cfg
        else nova_model_params cfg)"
    by (simp add: select_params_def model_params_def str_in_iff_sublist del: str_in.simps)
  have d: "protocol_of model_id =
       (if sublist ''nova-canvas'' model_id then ImageProtocol
        else if sublist ''nova-reel'' model_id then VideoProtocol
        else TextProtocol)"
    by (simp add: protocol_of_def str_in_iff_sublist del: str_in.simps)
  have e: "protocol_of ''anthropic.claude-x'' = TextProtocol"
    by (simp add: protocol_of_def)
  have f: "select_params cfg ''anthropic.claude-x'' = claude_model_params cfg"
    by (simp add: select_params_def model_params_def)
  from a b c d e f show ?thesis by blast
qed

theorem select_params_first_match_witness:
  "select_params demo_configs ''amazon.nova-reel-v1:0'' = 2
   \<and> protocol_of ''amazon.nova-reel-v1:0'' = VideoProtocol
   \<and> select_params demo_configs ''mistral.large'' = 4"
proof -
  have r: "\<not> sublist ''nova-canvas'' ''amazon.nova-reel-v1:0''"
    by (simp add: str_in_iff_sublist [symmetric])
  have r2: "sublist ''nova-reel'' ''amazon.nova-reel-v1:0''"
    by (simp add: str_in_iff_sublist [symmetric])
  have m: "\<not> sublist ''nova-canvas'' ''mistral.large''" "\<not> sublist ''nova-reel'' ''mistral.large''"
     "\<not> sublist ''anthropic'' ''mistral.large''"
    by (simp_all add: str_in_iff_sublist [symmetric])
  show ?thesis
    using select_params_first_match [of demo_configs "''amazon.nova-reel-v1:0''"]
      select_params_first_match [of demo_configs "''mistral.large''"] r r2 m
    by (simp add: demo_configs_def)
qed

subsection \<open>Session reset\<close>

text \<open>
  C9, as the code has it. \<open>clear_screen\<close> is one step from a session state to the next,
  and in the state it returns the history holds the start message alone, the wire history
  is empty, the table \<open>uploaded_document_content\<close> is empty and no video job is active
  (the key stays absent when it was absent, and holds \<open>None\<close> otherwise). The uploaded
  files themselves, \<open>uploaded_files\<close>, are not touched, and neither are the message
  objects and the trace.
\<close>

theorem clear_screen_resets:
  "messages (clear_screen cfg s) = [\<lparr>turn_role = ''assistant'', turn_content = Str (start_message cfg)\<rparr>]
   \<and> bedrock_messages (clear_screen cfg s) = []
   \<and> uploaded_document_content (clear_screen cfg s) = []
   \<and> video_job (clear_screen cfg s) = (if video_job s = None then None else Some None)
   \<and> video_job (clear_screen cfg s) \<noteq> Some (Some j)
   \<and> uploaded_files (clear_screen cfg s) = uploaded_files s
   \<and> heap (clear_screen cfg s) = heap s
   \<and> trace (clear_screen cfg s) = trace s"
  by (simp add: clear_screen_def Let_def)

theorem clear_screen_resets_witness:
  "messages (clear_screen demo_configs polling_state) =
     [\<lparr>turn_role = ''assistant'', turn_content = Str ''How can I help?''\<rparr>]
   \<and> video_job (clear_screen demo_configs polling_state) = Some None"
  using clear_screen_resets [of demo_configs polling_state]
  by (simp add: demo_configs_def polling_state_def idle_state_def)

text \<open>
  The claim as stated fails for the uploaded files: after the reset the file is still in
  the session, and the next turn hands it to \<open>user_message\<close>, so the request of that
  turn carries it.
\<close>

theorem clear_screen_keeps_uploaded_files:
  "uploaded_files (clear_screen demo_configs uploaded_state)
     = [\<lparr>file_name = ''notes.pdf'', file_value = ''%PDF''\<rparr>]
   \<and> uploaded_document_content (clear_screen demo_configs uploaded_state) = []
   \<and> trace (fst (main_turn attaching_collaborators ''amazon.nova-lite-v1:0'' None False []
        ''summarise'' (clear_screen demo_configs uploaded_state)))
     = [GetRelevantDocs ''summarise'',
        InvokeModel [\<lparr>role = ''user'',
                      content = [TextBlock ''summarise'', OtherBlock ''notes.pdf''],
                      s3_uri = None\<rparr>]]"
  by (simp add: clear_screen_def uploaded_state_def one_message_state_def idle_state_def
      demo_configs_def attaching_collaborators_def demo_collaborators_def main_turn_def
      retrieve_docs_def handle_text_generation_def prepend_system_def Let_def emit_def
      update_chat_history_def append_bedrock_message_def)

subsection \<open>The polling loop\<close>

lemma backend_success_iff: "backend_success r \<longleftrightarrow> completed (get_video_status r)"
  by (cases r) simp_all

lemma raises_status:
  "get_video_status (Raises e) = \<lparr>status = ''Error'', completed = False, failed = True, error = Some e\<rparr>"
  by simp

lemma poll_iteration_completed_artifact:
  assumes "video_job s = Some (Some j)" "backend_success (status_reply p)" "fst (storage_reply p)"
  shows "snd (poll_iteration c p s) = Break"
    and "video_job (fst (poll_iteration c p s)) = Some None"
    and "messages (fst (poll_iteration c p s)) =
           messages s @ [report_turn (success_message (s3_bucket j) (snd (storage_reply p)))]"
    and "bedrock_messages (fst (poll_iteration c p s)) = bedrock_messages s @ [length (heap s)]"
    and "heap (fst (poll_iteration c p s)) =
           heap s @ [assistant_message c (success_message (s3_bucket j) (snd (storage_reply p)))]"
    and "trace (fst (poll_iteration c p s)) =
           trace s @ [GetAsyncInvoke (invocation_arn j), CheckVideoExists (s3_bucket j) (s3_prefix j),
                      StatusSuccess (success_message (s3_bucket j) (snd (storage_reply p)))]"
  using assms
  by (simp_all add: poll_iteration_def backend_success_iff Let_def emit_def
      update_chat_history_def append_bedrock_message_def report_turn_def)

lemma poll_iteration_completed_no_artifact:
  assumes "video_job s = Some (Some j)" "backend_success (status_reply p)" "\<not> fst (storage_reply p)"
  shows "poll_iteration c p s =
           (s\<lparr>trace := trace s @ [GetAsyncInvoke (invocation_arn j),
                                   CheckVideoExists (s3_bucket j) (s3_prefix j),
                                   StatusInfo waiting_message, Sleep 10]\<rparr>, Continue)"
  using assms
  by (simp add: poll_iteration_def backend_success_iff Let_def emit_def)

lemma poll_iteration_failed:
  assumes "video_job s = Some (Some j)" "\<not> backend_success (status_reply p)"
    "failed (get_video_status (status_reply p))"
  shows "snd (poll_iteration c p s) = Break"
    and "video_job (fst (poll_iteration c p s)) = Some None"
    and "messages (fst (poll_iteration c p s)) =
           messages s @ [report_turn (failure_message (error (get_video_status (status_reply p))))]"
    and "bedrock_messages (fst (poll_iteration c p s)) = bedrock_messages s @ [length (heap s)]"
    and "heap (fst (poll_iteration c p s)) =
           heap s @ [assistant_message c (failure_message (error (get_video_status (status_reply p))))]"
    and "trace (fst (poll_iteration c p s)) =
           trace s @ [GetAsyncInvoke (invocation_arn j),
                      StatusError (failure_message (error (get_video_status (status_reply p))))]"
  using assms
  by (simp_all add: poll_iteration_def backend_success_iff Let_def emit_def
      update_chat_history_def append_bedrock_message_def report_turn_def)

lemma poll_iteration_in_progress:
  assumes "video_job s = Some (Some j)" "\<not> backend_success (status_reply p)"
    "\<not> failed (get_video_status (status_reply p))"
  shows "poll_iteration c p s =
           (s\<lparr>trace := trace s @ [GetAsyncInvoke (invocation_arn j),
                StatusInfo (generating_message (status (get_video_status (status_reply p)))),
                Sleep 10]\<rparr>, Continue)"
  using assms
  by (simp add: poll_iteration_def backend_success_iff Let_def emit_def)

text \<open>Every iteration on an active job either breaks with one report or continues unchanged.\<close>

lemma poll_iteration_cases:
  assumes "video_job s = Some (Some j)"
  shows "(snd (poll_iteration c p s) = Break
          \<and> video_job (fst (poll_iteration c p s)) = Some None
          \<and> (\<exists>m. messages (fst (poll_iteration c p s)) = messages s @ [report_turn m])
          \<and> length (bedrock_messages (fst (poll_iteration c p s))) = Suc (length (bedrock_messages s))
          \<and> length (filter is_terminal_status (trace (fst (poll_iteration c p s))))
              = Suc (length (filter is_terminal_status (trace s))))
       \<or> (snd (poll_iteration c p s) = Continue
          \<and> video_job (fst (poll_iteration c p s)) = video_job s
          \<and> messages (fst (poll_iteration c p s)) = messages s
          \<and> bedrock_messages (fst (poll_iteration c p s)) = bedrock_messages s
          \<and> filter is_terminal_status (trace (fst (poll_iteration c p s)))
              = filter is_terminal_status (trace s))"
proof (cases "backend_success (status_reply p)")
  case True
  show ?thesis
  proof (cases "fst (storage_reply p)")
    case True
    with \<open>backend_success (status_reply p)\<close> assms show ?thesis
      by (auto simp: poll_iteration_completed_artifact)
  next
    case False
    with \<open>backend_success (status_reply p)\<close> assms show ?thesis
      by (simp add: poll_iteration_completed_no_artifact)
  qed
next
  case False
  show ?thesis
  proof (cases "failed (get_video_status (status_reply p))")
    case True
    with False assms show ?thesis
      by (auto simp: poll_iteration_failed)
  next
    case f: False
    with False assms show ?thesis
      by (simp add: poll_iteration_in_progress)
  qed
qed

lemma poll_iteration_filter:
  assumes "\<And>a. \<not> P (GetAsyncInvoke a)" "\<And>b k. \<not> P (CheckVideoExists b k)"
    "\<And>m. \<not> P (StatusInfo m)" "\<And>m. \<not> P (StatusSuccess m)"
    "\<And>m. \<not> P (StatusError m)" "\<And>n. \<not> P (Sleep n)"
  shows "filter P (trace (fst (poll_iteration c p s))) = filter P (trace s)"
  using assms
  by (simp add: poll_iteration_def Let_def emit_def update_chat_history_def
      append_bedrock_message_def split: option.splits)

lemma poll_loop_filter:
  assumes "\<And>a. \<not> P (GetAsyncInvoke a)" "\<And>b k. \<not> P (CheckVideoExists b k)"
    "\<And>m. \<not> P (StatusInfo m)" "\<And>m. \<not> P (StatusSuccess m)"
    "\<And>m. \<not> P (StatusError m)" "\<And>n. \<not> P (Sleep n)"
  shows "filter P (trace (fst (poll_loop c polls s))) = filter P (trace s)"
proof (induction polls arbitrary: s)
  case Nil
  show ?case by simp
next
  case (Cons p ps)
  obtain s' ctl where it: "poll_iteration c p s = (s', ctl)"
    by (cases "poll_iteration c p s")
  have f: "filter P (trace s') = filter P (trace s)"
    using poll_iteration_filter [of P c p s, OF assms] it by simp
  show ?case
  proof (cases ctl)
    case Break
    with it f show ?thesis by simp
  next
    case Continue
    with it f Cons.IH [of s'] show ?thesis by simp
  next
    case (Abort e)
    with it f show ?thesis by simp
  qed
qed

lemma poll_loop_outcome:
  assumes "video_job s = Some (Some j)"
  shows "(snd (poll_loop c polls s) = Returned
          \<and> video_job (fst (poll_loop c polls s)) = Some None
          \<and> (\<exists>m. messages (fst (poll_loop c polls s)) = messages s @ [report_turn m])
          \<and> length (bedrock_messages (fst (poll_loop c polls s))) = Suc (length (bedrock_messages s))
          \<and> length (filter is_terminal_status (trace (fst (poll_loop c polls s))))
              = Suc (length (filter is_terminal_status (trace s))))
       \<or> (snd (poll_loop c polls s) = Polling
          \<and> video_job (fst (poll_loop c polls s)) = Some (Some j)
          \<and> messages (fst (poll_loop c polls s)) = messages s
          \<and> bedrock_messages (fst (poll_loop c polls s)) = bedrock_messages s
          \<and> filter is_terminal_status (trace (fst (poll_loop c polls s)))
              = filter is_terminal_status (trace s))"
  using assms
proof (induction polls arbitrary: s)
  case Nil
  then show ?case by simp
next
  case (Cons p ps)
  obtain s' ctl where it: "poll_iteration c p s = (s', ctl)"
    by (cases "poll_iteration c p s")
  from poll_iteration_cases [OF Cons.prems, of c p] it
  consider (brk) "ctl = Break" "video_job s' = Some None"
      "\<exists>m. messages s' = messages s @ [report_turn m]"
      "length (bedrock_messages s') = Suc (length (bedrock_messages s))"
      "length (filter is_terminal_status (trace s')) = Suc (length (filter is_terminal_status (trace s)))"
    | (cont) "ctl = Continue" "video_job s' = video_job s" "messages s' = messages s"
      "bedrock_messages s' = bedrock_messages s"
      "filter is_terminal_status (trace s') = filter is_terminal_status (trace s)"
    by auto
  then show ?case
  proof cases
    case brk
    with it show ?thesis by simp
  next
    case cont
    from cont Cons.prems have j: "video_job s' = Some (Some j)" by simp
    from Cons.IH [OF j] cont it show ?thesis by simp
  qed
qed



lemma poll_iteration_first_call:
  assumes "video_job s = Some (Some j)"
  shows "\<exists>es. trace (fst (poll_iteration c p s)) = trace s @ GetAsyncInvoke (invocation_arn j) # es"
  using assms
  by (simp add: poll_iteration_def Let_def emit_def update_chat_history_def
      append_bedrock_message_def)

lemma poll_iteration_trace_extends:
  "\<exists>es. trace (fst (poll_iteration c p s)) = trace s @ es"
  by (simp add: poll_iteration_def Let_def emit_def update_chat_history_def
      append_bedrock_message_def split: option.splits)

lemma poll_loop_trace_extends:
  "\<exists>es. trace (fst (poll_loop c polls s)) = trace s @ es"
proof (induction polls arbitrary: s)
  case Nil
  show ?case by simp
next
  case (Cons p ps)
  obtain s' ctl where it: "poll_iteration c p s = (s', ctl)"
    by (cases "poll_iteration c p s")
  from poll_iteration_trace_extends [of c p s] it
  obtain es where es: "trace s' = trace s @ es" by auto
  show ?case
  proof (cases ctl)
    case Break
    with it es show ?thesis by simp
  next
    case Continue
    from Cons.IH [of s'] obtain fs where "trace (fst (poll_loop c ps s')) = trace s' @ fs" by blast
    with Continue it es show ?thesis by simp
  next
    case (Abort e)
    with it es show ?thesis by simp
  qed
qed

lemma poll_loop_first_call:
  assumes "video_job s = Some (Some j)"
  shows "\<exists>es. trace (fst (poll_loop c (p # ps) s)) = trace s @ GetAsyncInvoke (invocation_arn j) # es"
proof -
  obtain s' ctl where it: "poll_iteration c p s = (s', ctl)"
    by (cases "poll_iteration c p s")
  from poll_iteration_first_call [OF assms, of c p] it
  obtain es where es: "trace s' = trace s @ GetAsyncInvoke (invocation_arn j) # es" by auto
  show ?thesis
  proof (cases ctl)
    case Break
    with it es show ?thesis by simp
  next
    case Continue
    from poll_loop_trace_extends [of c ps s']
    obtain fs where "trace (fst (poll_loop c ps s')) = trace s' @ fs" by blast
    with Continue it es show ?thesis by simp
  next
    case (Abort e)
    with it es show ?thesis by simp
  qed
qed

subsection \<open>Transport errors while polling\<close>

text \<open>
  C1, as the code has it. \<open>get_video_status\<close> turns an exception of the status call into
  a status with \<open>failed = True\<close>, and the loop treats it as it treats the backend's own
  \<open>"Failed"\<close>: with a job active, an iteration whose status call raises ends the loop,
  appends one failure report carrying the text of the exception to the history and clears
  the job, for every active job and every exception.
\<close>

theorem transport_error_is_terminal:
  assumes "video_job s = Some (Some j)" and "status_reply p = Raises e"
  shows "snd (poll_loop c (p # ps) s) = Returned
   \<and> video_job (fst (poll_loop c (p # ps) s)) = Some None
   \<and> messages (fst (poll_loop c (p # ps) s)) = messages s @ [report_turn (failure_message (Some e))]
   \<and> trace (fst (poll_loop c (p # ps) s))
       = trace s @ [GetAsyncInvoke (invocation_arn j), StatusError (failure_message (Some e))]"
proof -
  have ns: "\<not> backend_success (status_reply p)" and f: "failed (get_video_status (status_reply p))"
    and er: "error (get_video_status (status_reply p)) = Some e"
    using assms(2) by simp_all
  obtain s' ctl where it: "poll_iteration c p s = (s', ctl)"
    by (cases "poll_iteration c p s")
  from poll_iteration_failed [OF assms(1) ns f, of c] it er
  have "ctl = Break" "video_job s' = Some None"
    "messages s' = messages s @ [report_turn (failure_message (Some e))]"
    "trace s' = trace s @ [GetAsyncInvoke (invocation_arn j), StatusError (failure_message (Some e))]"
    by simp_all
  with it show ?thesis by simp
qed

theorem transport_error_is_terminal_witness:
  "snd (poll_loop demo_collaborators [reply_transport_error] polling_state) = Returned
   \<and> video_job (fst (poll_loop demo_collaborators [reply_transport_error] polling_state)) = Some None
   \<and> messages (fst (poll_loop demo_collaborators [reply_transport_error] polling_state))
      = [\<lparr>turn_role = ''assistant'', turn_content = Str ''How can I help?''\<rparr>,
         report_turn (failure_message (Some ''timed out''))]"
proof -
  have a: "video_job polling_state = Some (Some demo_job)"
    by (simp add: polling_state_def)
  have b: "status_reply reply_transport_error = Raises ''timed out''"
    by (simp add: reply_transport_error_def)
  show ?thesis
    using transport_error_is_terminal [OF a b, of demo_collaborators "[]"]
    by (simp add: polling_state_def idle_state_def)
qed

text \<open>
  The claim as stated fails: a timeout of the first status call ends the job with a failure
  report, and the second reply is never asked for.
\<close>

theorem transport_error_counterexample:
  "snd (poll_loop demo_collaborators [reply_transport_error, reply_in_progress] polling_state) = Returned
   \<and> video_job (fst (poll_loop demo_collaborators [reply_transport_error, reply_in_progress] polling_state)) = Some None
   \<and> messages (fst (poll_loop demo_collaborators [reply_transport_error, reply_in_progress] polling_state))
       = messages polling_state @ [report_turn (failure_message (Some ''timed out''))]
   \<and> trace (fst (poll_loop demo_collaborators [reply_transport_error, reply_in_progress] polling_state))
       = [GetAsyncInvoke ''arn:job-1'', StatusError (failure_message (Some ''timed out''))]"
  by (simp add: poll_iteration_def polling_state_def idle_state_def demo_job_def
      reply_transport_error_def Let_def emit_def update_chat_history_def
      append_bedrock_message_def report_turn_def)

subsection \<open>Completion needs the status and the artifact\<close>

text \<open>
  C2. With a job active, one iteration of the loop reports completion (job cleared, one
  entry added to the history, one success status shown) exactly when the backend reports
  \<open>"Completed"\<close> and the storage check finds the artifact; it then breaks with the
  success report as the new entry. When the backend reports \<open>"Completed"\<close> and the
  artifact is not there, the iteration continues with the job and both histories as they
  were, so the loop goes on to the next reply (and is still polling when there is none).
\<close>

theorem completed_needs_status_and_artifact:
  assumes "video_job s = Some (Some j)"
  shows "(completed_step s (fst (poll_iteration c p s))
            \<longleftrightarrow> backend_success (status_reply p) \<and> fst (storage_reply p))
   \<and> (backend_success (status_reply p) \<and> fst (storage_reply p) \<longrightarrow>
         snd (poll_iteration c p s) = Break
         \<and> messages (fst (poll_iteration c p s))
             = messages s @ [report_turn (success_message (s3_bucket j) (snd (storage_reply p)))])
   \<and> (backend_success (status_reply p) \<and> \<not> fst (storage_reply p) \<longrightarrow>
         snd (poll_iteration c p s) = Continue
         \<and> video_job (fst (poll_iteration c p s)) = Some (Some j)
         \<and> messages (fst (poll_iteration c p s)) = messages s
         \<and> bedrock_messages (fst (poll_iteration c p s)) = bedrock_messages s
         \<and> poll_loop c [p] s = (fst (poll_iteration c p s), Polling)
         \<and> poll_loop c (p # ps) s = poll_loop c ps (fst (poll_iteration c p s)))"
proof (cases "backend_success (status_reply p)")
  case True
  show ?thesis
  proof (cases "fst (storage_reply p)")
    case e: True
    from poll_iteration_completed_artifact [OF assms True e, of c] True e show ?thesis
      by (simp add: completed_step_def)
  next
    case False
    from poll_iteration_completed_no_artifact [OF assms True False, of c] True False assms
    show ?thesis
      by (simp add: completed_step_def)
  qed
next
  case False
  show ?thesis
  proof (cases "failed (get_video_status (status_reply p))")
    case True
    from poll_iteration_failed [OF assms False True, of c] False show ?thesis
      by (simp add: completed_step_def)
  next
    case f: False
    from poll_iteration_in_progress [OF assms False f, of c] False assms show ?thesis
      by (simp add: completed_step_def)
  qed
qed

theorem completed_needs_status_and_artifact_witness:
  "snd (poll_loop demo_collaborators [reply_completed_no_artifact] polling_state) = Polling
   \<and> messages (fst (poll_iteration demo_collaborators reply_completed_no_artifact polling_state))
       = messages polling_state
   \<and> video_job (fst (poll_iteration demo_collaborators reply_completed_no_artifact polling_state))
       = Some (Some demo_job)
   \<and> \<not> completed_step polling_state
         (fst (poll_iteration demo_collaborators reply_completed_no_artifact polling_state))
   \<and> completed_step polling_state
         (fst (poll_iteration demo_collaborators reply_completed_artifact polling_state))"
proof -
  have a: "video_job polling_state = Some (Some demo_job)"
    by (simp add: polling_state_def)
  have b: "backend_success (status_reply reply_completed_no_artifact)"
    "\<not> fst (storage_reply reply_completed_no_artifact)"
    "backend_success (status_reply reply_completed_artifact)"
    "fst (storage_reply reply_completed_artifact)"
    by (simp_all add: reply_completed_no_artifact_def reply_completed_artifact_def)
  show ?thesis
    using completed_needs_status_and_artifact [OF a, of demo_collaborators reply_completed_no_artifact "[]"]
      completed_needs_status_and_artifact [OF a, of demo_collaborators reply_completed_artifact "[]"] b
    by simp
qed

subsection \<open>The video handler\<close>

lemma handle_video_generation_active:
  assumes "video_job s = Some (Some j)"
  shows "handle_video_generation c prompt uri upload polls s = poll_loop c polls s"
  using assms by (simp add: handle_video_generation_def)

lemma handle_video_generation_idle:
  assumes "video_job s = None \<or> video_job s = Some None"
  shows "handle_video_generation c prompt uri upload polls s =
     poll_loop c polls
       (s\<lparr>trace := trace s @ [StatusInfo starting_message,
             GenerateVideo prompt uri
               (case upload of None \<Rightarrow> None
                | Some f \<Rightarrow> Some (file_value f, image_format c (file_name f)))],
          video_job := Some (Some (generate_video c prompt uri
               (case upload of None \<Rightarrow> None
                | Some f \<Rightarrow> Some (file_value f, image_format c (file_name f)))))\<rparr>)"
  using assms by (auto simp: handle_video_generation_def Let_def emit_def)



subsection \<open>A request while a job is active\<close>

text \<open>
  C4, as the code has it. The handler submits only when \<open>video_job\<close> is \<open>None\<close>;
  with a job active it goes straight to the loop. So a request that arrives while a job is
  active is not rejected: nothing is submitted, no error is shown, and the handler polls
  the active job with its own handle, which may end it.
\<close>

theorem second_request_resumes_polling:
  assumes "video_job s = Some (Some j)"
  shows "handle_video_generation c prompt uri upload polls s = poll_loop c polls s
   \<and> filter is_submission (trace (fst (handle_video_generation c prompt uri upload polls s)))
       = filter is_submission (trace s)
   \<and> filter is_user_error (trace (fst (handle_video_generation c prompt uri upload polls s)))
       = filter is_user_error (trace s)
   \<and> snd (handle_video_generation c prompt uri upload polls s) \<in> {Returned, Polling}
   \<and> (\<exists>es. trace (fst (handle_video_generation c prompt uri upload (p # ps) s))
             = trace s @ GetAsyncInvoke (invocation_arn j) # es)"
proof -
  have a: "handle_video_generation c prompt uri upload polls s = poll_loop c polls s"
    by (rule handle_video_generation_active [OF assms])
  have b: "filter is_submission (trace (fst (poll_loop c polls s))) = filter is_submission (trace s)"
    by (rule poll_loop_filter) simp_all
  have d: "filter is_user_error (trace (fst (poll_loop c polls s))) = filter is_user_error (trace s)"
    by (rule poll_loop_filter) simp_all
  have e: "snd (poll_loop c polls s) \<in> {Returned, Polling}"
    using poll_loop_outcome [OF assms, of c polls] by auto
  have f: "\<exists>es. trace (fst (handle_video_generation c prompt uri upload (p # ps) s))
             = trace s @ GetAsyncInvoke (invocation_arn j) # es"
    using poll_loop_first_call [OF assms, of c p ps]
    by (simp add: handle_video_generation_active [OF assms])
  from a b d e f show ?thesis by simp
qed

theorem second_request_resumes_polling_witness:
  "handle_video_generation demo_collaborators ''another video'' (Some ''s3://bucket'') None
      [reply_in_progress] polling_state
     = poll_loop demo_collaborators [reply_in_progress] polling_state
   \<and> filter is_submission (trace (fst (handle_video_generation demo_collaborators ''another video''
        (Some ''s3://bucket'') None [reply_in_progress] polling_state))) = []"
proof -
  have a: "video_job polling_state = Some (Some demo_job)"
    by (simp add: polling_state_def)
  note t = second_request_resumes_polling [OF a, where c = demo_collaborators
        and prompt = "''another video''" and uri = "Some ''s3://bucket''" and upload = None
        and polls = "[reply_in_progress]" and p = reply_in_progress and ps = "[]"]
  have e: "trace polling_state = []"
    by (simp add: polling_state_def idle_state_def)
  from t have 1: "handle_video_generation demo_collaborators ''another video''
      (Some ''s3://bucket'') None [reply_in_progress] polling_state
     = poll_loop demo_collaborators [reply_in_progress] polling_state"
    by (rule conjunct1)
  from t have "filter is_submission (trace (fst (handle_video_generation demo_collaborators
        ''another video'' (Some ''s3://bucket'') None [reply_in_progress] polling_state)))
      = filter is_submission (trace polling_state)"
    by blast
  with e have 2: "filter is_submission (trace (fst (handle_video_generation demo_collaborators
        ''another video'' (Some ''s3://bucket'') None [reply_in_progress] polling_state))) = []"
    by simp
  from 1 2 show ?thesis by (rule conjI)
qed

text \<open>
  The claim as stated fails: the second request shows no error and the active job does not
  stay as it was, since the poll that the request starts finds it complete and clears it.
\<close>

theorem second_request_counterexample:
  "snd (handle_video_generation demo_collaborators ''another video'' (Some ''s3://bucket'') None
          [reply_completed_artifact] polling_state) = Returned
   \<and> video_job (fst (handle_video_generation demo_collaborators ''another video''
          (Some ''s3://bucket'') None [reply_completed_artifact] polling_state)) = Some None
   \<and> video_job polling_state = Some (Some demo_job)
   \<and> trace (fst (handle_video_generation demo_collaborators ''another video''
          (Some ''s3://bucket'') None [reply_completed_artifact] polling_state))
       = [GetAsyncInvoke ''arn:job-1'', CheckVideoExists ''bucket'' ''job-1'',
          StatusSuccess (success_message ''bucket'' (Some ''job-1/output.mp4''))]"
  by (simp add: handle_video_generation_def poll_iteration_def polling_state_def idle_state_def
      demo_job_def reply_completed_artifact_def Let_def emit_def update_chat_history_def
      append_bedrock_message_def)

subsection \<open>One terminal report, then idle\<close>



subsection \<open>The handlers of one turn\<close>

lemma protocol_video_iff:
  "protocol_of model_id = VideoProtocol \<longleftrightarrow>
     \<not> str_in ''nova-canvas'' model_id \<and> str_in ''nova-reel'' model_id"
  by (simp add: protocol_of_def del: str_in.simps)

lemma protocol_image_iff:
  "protocol_of model_id = ImageProtocol \<longleftrightarrow> str_in ''nova-canvas'' model_id"
  by (simp add: protocol_of_def del: str_in.simps)

lemma protocol_text_iff:
  "protocol_of model_id = TextProtocol \<longleftrightarrow>
     \<not> str_in ''nova-canvas'' model_id \<and> \<not> str_in ''nova-reel'' model_id"
  by (simp add: protocol_of_def del: str_in.simps)

lemma handle_video_generation_filter:
  assumes "\<And>a. \<not> P (GetAsyncInvoke a)" "\<And>b k. \<not> P (CheckVideoExists b k)"
    "\<And>m. \<not> P (StatusInfo m)" "\<And>m. \<not> P (StatusSuccess m)"
    "\<And>m. \<not> P (StatusError m)" "\<And>n. \<not> P (Sleep n)" "\<And>p u i. \<not> P (GenerateVideo p u i)"
  shows "filter P (trace (fst (handle_video_generation c prompt uri upload polls s)))
           = filter P (trace s)"
proof (cases "video_job s = None \<or> video_job s = Some None")
  case True
  show ?thesis
    by (simp add: handle_video_generation_idle [OF True] poll_loop_filter [of P, OF assms(1-6)]
        assms)
next
  case False
  then obtain j where j: "video_job s = Some (Some j)"
    by (cases "video_job s") auto
  show ?thesis
    by (simp add: handle_video_generation_active [OF j] poll_loop_filter [of P, OF assms(1-6)])
qed

lemma handle_image_generation_filter:
  assumes "\<And>ms. \<not> P (InvokeModel ms)"
  shows "filter P (trace (fst (handle_image_generation c s))) = filter P (trace s)"
  using assms
  by (simp add: handle_image_generation_def Let_def emit_def update_chat_history_def
      append_bedrock_message_def)

lemma handle_text_generation_filter:
  assumes "\<And>ms. \<not> P (InvokeModel ms)" "\<And>ms. \<not> P (InvokeModelWithStream ms)"
  shows "filter P (trace (fst (handle_text_generation c streaming s))) = filter P (trace s)"
proof -
  have pre: "trace s1 = trace s" if "prepend_system (system_message c) (bedrock_messages s) s = Inr s1"
    for s1
    using that
    by (auto simp: prepend_system_def split: option.splits list.splits if_splits sum.splits)
  show ?thesis
  proof (cases "prepend_system (system_message c) (bedrock_messages s) s")
    case (Inl e)
    then show ?thesis by (simp add: handle_text_generation_def)
  next
    case (Inr s1)
    with pre [OF Inr] assms show ?thesis
      by (simp add: handle_text_generation_def Let_def emit_def update_chat_history_def
          append_bedrock_message_def)
  qed
qed

subsection \<open>A video request without an output location\<close>

text \<open>
  C6. When the identifier selects the video handler and the output location is absent or
  empty, the turn records the user's prompt in the history, shows the configuration
  error and returns: the trace gains that one error and no call to the backend, no job is
  created and the wire history is as it was.
\<close>

theorem missing_output_location_fails_fast:
  assumes "protocol_of model_id = VideoProtocol" and "uri = None \<or> uri = Some []"
  shows "main_turn c model_id uri streaming_on polls prompt s =
           (s\<lparr>messages := messages s @ [\<lparr>turn_role = ''user'', turn_content = Str prompt\<rparr>],
              trace := trace s @ [StError config_error_message]\<rparr>, Returned)
   \<and> filter is_backend_call (trace (fst (main_turn c model_id uri streaming_on polls prompt s)))
       = filter is_backend_call (trace s)
   \<and> video_job (fst (main_turn c model_id uri streaming_on polls prompt s)) = video_job s
   \<and> bedrock_messages (fst (main_turn c model_id uri streaming_on polls prompt s))
       = bedrock_messages s"
proof -
  from assms(1) have reel: "str_in ''nova-reel'' model_id"
    by (simp add: protocol_video_iff)
  from assms(2) have nt: "\<not> truthy uri" by auto
  have eq: "main_turn c model_id uri streaming_on polls prompt s =
           (s\<lparr>messages := messages s @ [\<lparr>turn_role = ''user'', turn_content = Str prompt\<rparr>],
              trace := trace s @ [StError config_error_message]\<rparr>, Returned)"
    using reel nt by (simp add: main_turn_def emit_def del: str_in.simps)
  show ?thesis
    by (simp add: eq)
qed

theorem missing_output_location_fails_fast_witness:
  "main_turn demo_collaborators ''amazon.nova-reel-v1:0'' None False [reply_completed_artifact]
      ''a sunset'' idle_state =
     (idle_state\<lparr>messages := messages idle_state @ [\<lparr>turn_role = ''user'', turn_content = Str ''a sunset''\<rparr>],
              trace := trace idle_state @ [StError config_error_message]\<rparr>, Returned)"
proof -
  have a: "protocol_of ''amazon.nova-reel-v1:0'' = VideoProtocol"
    by (simp add: protocol_of_def)
  have b: "(None :: string option) = None \<or> None = Some []" by simp
  from missing_output_location_fails_fast [OF a b, of demo_collaborators False
      "[reply_completed_artifact]" "''a sunset''" idle_state]
  show ?thesis by (rule conjunct1)
qed

subsection \<open>Retrieval\<close>

text \<open>
  C8. For an identifier that selects the image or the video handler, the documents of the
  turn are the empty list, obtained without a query, and the whole turn makes no query
  of the document index. For an identifier that selects the text handler the documents
  are what the one query for the prompt returns.
\<close>

theorem retrieval_only_for_text:
  "(protocol_of model_id \<noteq> TextProtocol \<longrightarrow>
      retrieve_docs c model_id prompt s = ([], s)
      \<and> filter is_retrieval (trace (fst (main_turn c model_id uri streaming_on polls prompt s)))
          = filter is_retrieval (trace s))
   \<and> (protocol_of model_id = TextProtocol \<longrightarrow>
      retrieve_docs c model_id prompt s
          = (get_relevant_docs c prompt, s\<lparr>trace := trace s @ [GetRelevantDocs prompt]\<rparr>)
      \<and> filter is_retrieval (trace (fst (main_turn c model_id uri streaming_on polls prompt s)))
          = filter is_retrieval (trace s) @ [GetRelevantDocs prompt])"
proof (cases "protocol_of model_id")
  case ImageProtocol
  then have cv: "str_in ''nova-canvas'' model_id" by (simp add: protocol_image_iff)
  have "filter is_retrieval (trace (fst (main_turn c model_id uri streaming_on polls prompt s)))
          = filter is_retrieval (trace s)"
    using cv
    by (simp add: main_turn_def retrieve_docs_def Let_def emit_def handle_image_generation_filter
        append_bedrock_message_def del: str_in.simps)
  with ImageProtocol cv show ?thesis
    by (simp add: retrieve_docs_def del: str_in.simps)
next
  case VideoProtocol
  then have cv: "\<not> str_in ''nova-canvas'' model_id" "str_in ''nova-reel'' model_id"
    by (simp_all add: protocol_video_iff)
  have "filter is_retrieval (trace (fst (main_turn c model_id uri streaming_on polls prompt s)))
          = filter is_retrieval (trace s)"
    using cv
    by (simp add: main_turn_def retrieve_docs_def Let_def emit_def handle_video_generation_filter
        append_bedrock_message_def del: str_in.simps)
  with VideoProtocol cv show ?thesis
    by (simp add: retrieve_docs_def del: str_in.simps)
next
  case TextProtocol
  then have cv: "\<not> str_in ''nova-canvas'' model_id" "\<not> str_in ''nova-reel'' model_id"
    by (simp_all add: protocol_text_iff)
  have "filter is_retrieval (trace (fst (main_turn c model_id uri streaming_on polls prompt s)))
          = filter is_retrieval (trace s) @ [GetRelevantDocs prompt]"
    using cv
    by (simp add: main_turn_def retrieve_docs_def Let_def emit_def handle_text_generation_filter
        append_bedrock_message_def del: str_in.simps)
  with TextProtocol cv show ?thesis
    by (simp add: retrieve_docs_def emit_def del: str_in.simps)
qed

theorem retrieval_only_for_text_witness:
  "filter is_retrieval (trace (fst (main_turn demo_collaborators ''amazon.nova-canvas-v1:0'' None
       False [] ''a cat'' idle_state))) = []
   \<and> filter is_retrieval (trace (fst (main_turn demo_collaborators ''anthropic.claude-x'' None
       True [] ''hello'' idle_state))) = [GetRelevantDocs ''hello'']"
proof -
  have p1: "protocol_of ''amazon.nova-canvas-v1:0'' \<noteq> TextProtocol"
    by (simp add: protocol_of_def)
  have p2: "protocol_of ''anthropic.claude-x'' = TextProtocol"
    by (simp add: protocol_of_def)
  have e: "trace idle_state = []" by (simp add: idle_state_def)
  from retrieval_only_for_text [of "''amazon.nova-canvas-v1:0''" demo_collaborators "''a cat''"
      idle_state None False "[]"] p1
  have "filter is_retrieval (trace (fst (main_turn demo_collaborators ''amazon.nova-canvas-v1:0''
       None False [] ''a cat'' idle_state))) = filter is_retrieval (trace idle_state)"
    by blast
  with e have 1: "filter is_retrieval (trace (fst (main_turn demo_collaborators
       ''amazon.nova-canvas-v1:0'' None False [] ''a cat'' idle_state))) = []"
    by simp
  from retrieval_only_for_text [of "''anthropic.claude-x''" demo_collaborators "''hello''"
      idle_state None True "[]"] p2
  have "filter is_retrieval (trace (fst (main_turn demo_collaborators ''anthropic.claude-x'' None
       True [] ''hello'' idle_state))) = filter is_retrieval (trace idle_state) @ [GetRelevantDocs ''hello'']"
    by blast
  with e have 2: "filter is_retrieval (trace (fst (main_turn demo_collaborators ''anthropic.claude-x''
       None True [] ''hello'' idle_state))) = [GetRelevantDocs ''hello'']"
    by simp
  from 1 2 show ?thesis by (rule conjI)
qed

subsection \<open>The system prompt in a text request\<close>

text \<open>
  C3, evaluated on the code. The history holds one user message, \<open>hi\<close>, the system
  prompt is \<open>Be brief.\<close> and the model identifier contains \<open>anthropic\<close>. The prompt
  is written in front of the user's text before the handler looks at \<open>streaming\<close>, so
  the request without streaming carries it twice, once as the leading system message and
  once inside the user's text, and is not the text that the streaming request carries.
\<close>

theorem system_prompt_sent_twice:
  "trace (fst (handle_text_generation demo_collaborators False one_message_state))
     = [InvokeModel
          [\<lparr>role = ''system'', content = [TextBlock ''Be brief.''], s3_uri = None\<rparr>,
           \<lparr>role = ''user'', content = [TextBlock (''Be brief.'' @ newline @ newline @ ''hi'')],
            s3_uri = None\<rparr>]]
   \<and> trace (fst (handle_text_generation demo_collaborators True one_message_state))
     = [InvokeModelWithStream
          [\<lparr>role = ''user'', content = [TextBlock (''Be brief.'' @ newline @ newline @ ''hi'')],
            s3_uri = None\<rparr>]]
   \<and> request_texts
        [\<lparr>role = ''system'', content = [TextBlock ''Be brief.''], s3_uri = None\<rparr>,
         \<lparr>role = ''user'', content = [TextBlock (''Be brief.'' @ newline @ newline @ ''hi'')],
          s3_uri = None\<rparr>]
     = [''Be brief.'', ''Be brief.'' @ newline @ newline @ ''hi'']
   \<and> request_texts
        [\<lparr>role = ''user'', content = [TextBlock (''Be brief.'' @ newline @ newline @ ''hi'')],
          s3_uri = None\<rparr>]
     = [''Be brief.'' @ newline @ newline @ ''hi'']"
  by (simp add: handle_text_generation_def prepend_system_def demo_collaborators_def
      one_message_state_def idle_state_def Let_def emit_def update_chat_history_def
      append_bedrock_message_def request_texts_def)

subsection \<open>The stored first message after a text turn\<close>

lemma first_text_update:
  assumes "first_text bs = Inr u"
  shows "first_text (bs[0 := TextBlock t]) = Inr t"
  using assms by (cases bs rule: first_text.cases) simp_all

lemma prepend_system_step:
  assumes "system_message c = Some sm" "first_text (content sm) = Inr sys"
    "bedrock_messages s = r # rs" "r < length (heap s)" "role (heap s ! r) = ''user''"
    "first_text (content (heap s ! r)) = Inr u"
  shows "prepend_system (system_message c) (r # rs) s =
           Inr (s\<lparr>heap := (heap s)[r := (heap s ! r)\<lparr>content :=
                  (content (heap s ! r))[0 := TextBlock (sys @ newline @ newline @ u)]\<rparr>]\<rparr>)"
  using assms by (simp add: prepend_system_def)

lemma handle_text_generation_step:
  assumes "system_message c = Some sm" "first_text (content sm) = Inr sys"
    "bedrock_messages s = r # rs" "r < length (heap s)" "role (heap s ! r) = ''user''"
    "first_text (content (heap s ! r)) = Inr u"
  shows "snd (handle_text_generation c streaming s) = Returned"
    and "bedrock_messages (fst (handle_text_generation c streaming s)) = r # rs @ [length (heap s)]"
    and "length (heap (fst (handle_text_generation c streaming s))) = Suc (length (heap s))"
    and "role (heap (fst (handle_text_generation c streaming s)) ! r) = ''user''"
    and "first_text (content (heap (fst (handle_text_generation c streaming s)) ! r))
           = Inr (sys @ newline @ newline @ u)"
  using assms(3-6)
  by (simp_all add: handle_text_generation_def prepend_system_step [OF assms] Let_def emit_def
      update_chat_history_def append_bedrock_message_def nth_append first_text_update)

lemma main_turn_text_step:
  assumes "protocol_of model_id = TextProtocol"
    "system_message c = Some sm" "first_text (content sm) = Inr sys"
    "bedrock_messages s = r # rs" "r < length (heap s)" "role (heap s ! r) = ''user''"
    "first_text (content (heap s ! r)) = Inr u"
  shows "first_stored_text (fst (main_turn c model_id uri streaming_on polls prompt s))
           = Inr (sys @ newline @ newline @ u)"
proof -
  from assms(1) have cv: "\<not> str_in ''nova-canvas'' model_id" "\<not> str_in ''nova-reel'' model_id"
    by (simp_all add: protocol_text_iff)
  define docs where "docs = get_relevant_docs c prompt"
  define m where "m = user_message c prompt
      (if docs \<noteq> [] then Some (parse_kb_output_to_string c docs) else None) (uploaded_files s)"
  define s3 where "s3 = append_bedrock_message m
      (emit (GetRelevantDocs prompt)
        (s\<lparr>messages := messages s @ [\<lparr>turn_role = ''user'', turn_content = Str prompt\<rparr>]\<rparr>))"
  have mt: "main_turn c model_id uri streaming_on polls prompt s
      = handle_text_generation c streaming_on s3"
    using cv
    by (simp add: main_turn_def retrieve_docs_def Let_def s3_def m_def docs_def emit_def
        del: str_in.simps)
  have b: "bedrock_messages s3 = r # (rs @ [length (heap s)])"
    using assms(4) by (simp add: s3_def append_bedrock_message_def emit_def)
  have l: "r < length (heap s3)"
    using assms(5) by (simp add: s3_def append_bedrock_message_def emit_def)
  have h: "heap s3 ! r = heap s ! r"
    using assms(5) by (simp add: s3_def append_bedrock_message_def emit_def nth_append)
  from assms(6,7) h have ro: "role (heap s3 ! r) = ''user''"
    and u: "first_text (content (heap s3 ! r)) = Inr u" by simp_all
  note st = handle_text_generation_step [OF assms(2,3) b l ro u, of streaming_on]
  show ?thesis
    using st by (simp add: mt first_stored_text_def)
qed

text \<open>
  C10. \<open>full_messages\<close> holds the references of the stored list, so line 364 writes the
  stored message. When a system prompt with a text is configured and the first stored
  message is a user message whose first block is a text \<open>u\<close>, a run of the text handler
  returns, the stored list still begins with the same message (one assistant message is
  added at its end), and the text of that message is now the system text, a blank line
  and \<open>u\<close>. A second run, or a whole further text turn, puts the system text in front
  once more.
\<close>

theorem system_prompt_accumulates:
  assumes "system_message c = Some sm" and "first_text (content sm) = Inr sys"
    and "bedrock_messages s = r # rs" and "r < length (heap s)"
    and "role (heap s ! r) = ''user''" and "first_stored_text s = Inr u"
  shows "snd (handle_text_generation c streaming s) = Returned
   \<and> bedrock_messages (fst (handle_text_generation c streaming s))
       = bedrock_messages s @ [length (heap s)]
   \<and> first_stored_text (fst (handle_text_generation c streaming s))
       = Inr (sys @ newline @ newline @ u)
   \<and> first_stored_text
        (fst (handle_text_generation c streaming2 (fst (handle_text_generation c streaming s))))
       = Inr (sys @ newline @ newline @ sys @ newline @ newline @ u)
   \<and> (protocol_of model_id = TextProtocol \<longrightarrow>
        first_stored_text
          (fst (main_turn c model_id uri streaming2 polls prompt
                 (fst (handle_text_generation c streaming s))))
         = Inr (sys @ newline @ newline @ sys @ newline @ newline @ u))"
proof -
  from assms(3,6) have u: "first_text (content (heap s ! r)) = Inr u"
    by (simp add: first_stored_text_def)
  let ?s1 = "fst (handle_text_generation c streaming s)"
  note one = handle_text_generation_step [OF assms(1-5) u, of streaming]
  have l: "r < length (heap ?s1)" using one(3) assms(4) by simp
  note two = handle_text_generation_step [OF assms(1,2) one(2) l one(4) one(5), of streaming2]
  have three: "first_stored_text
          (fst (main_turn c model_id uri streaming2 polls prompt ?s1))
         = Inr (sys @ newline @ newline @ sys @ newline @ newline @ u)"
    if "protocol_of model_id = TextProtocol"
    using main_turn_text_step [OF that assms(1,2) one(2) l one(4) one(5)] by simp
  show ?thesis
    using one two three assms(3) by (simp add: first_stored_text_def)
qed

theorem system_prompt_accumulates_witness:
  "first_stored_text one_message_state = Inr ''hi''
   \<and> first_stored_text (fst (handle_text_generation demo_collaborators True one_message_state))
       = Inr (''Be brief.'' @ newline @ newline @ ''hi'')
   \<and> first_stored_text (fst (handle_text_generation demo_collaborators True
         (fst (handle_text_generation demo_collaborators True one_message_state))))
       = Inr (''Be brief.'' @ newline @ newline @ ''Be brief.'' @ newline @ newline @ ''hi'')"
proof -
  have a: "system_message demo_collaborators
      = Some \<lparr>role = ''system'', content = [TextBlock ''Be brief.''], s3_uri = None\<rparr>"
    by (simp add: demo_collaborators_def)
  have b: "first_text (content \<lparr>role = ''system'', content = [TextBlock ''Be brief.''], s3_uri = None\<rparr>)
      = Inr ''Be brief.''" by simp
  have d: "bedrock_messages one_message_state = 0 # []"
    by (simp add: one_message_state_def idle_state_def)
  have e: "0 < length (heap one_message_state)"
    by (simp add: one_message_state_def idle_state_def)
  have f: "role (heap one_message_state ! 0) = ''user''"
    by (simp add: one_message_state_def idle_state_def)
  have g: "first_stored_text one_message_state = Inr ''hi''"
    by (simp add: first_stored_text_def one_message_state_def idle_state_def)
  from system_prompt_accumulates [OF a b d e f g, of True True] g
  show ?thesis by blast
qed

end
